theory Spec2Isabelle
  imports Complex_Main "HOL-Library.Sublist"
begin

section \<open>The bitcoind wallet of the COMIT SDK (src/wallet/bitcoin.ts)\<close>

text \<open>
  The wallet is a thin binding to the JSON-RPC interface of a Bitcoin node. Every
  asynchronous method awaits one or two HTTP requests made through axios. The embedding makes the effects
  explicit:
  \<^item> the node and the HTTP transport are a parameter, a step function that answers a
    request from the node's state, either with a transport failure or with the parsed
    response body;
  \<^item> the world consists of the node's state and the log of all requests issued so far,
    each with its answer, in the order in which they were issued;
  \<^item> a rejected promise (a thrown exception, a failed request, \<open>Promise.reject\<close>) is the
    left summand of the result;
  \<^item> every method of the class receives the object and returns it, so that a method which
    assigned to a field would show.
\<close>

subsection \<open>JavaScript values read from a response\<close>

text \<open>
  A parsed JSON body. Numbers are a type parameter: the wallet never computes with them.
  An object is the list of its entries, with distinct keys as \<open>JSON.parse\<close> leaves them;
  \<open>map_of\<close> looks a key up. The value \<open>undefined\<close> is \<open>None\<close> in the type
  \<open>'n json option\<close>.
\<close>

datatype 'n json =
    JNull
  | JBool bool
  | JNum 'n
  | JStr string
  | JArr "'n json list"
  | JObj "(string \<times> 'n json) list"

text \<open>
  The ways in which a promise of the wallet is rejected: a failure of the request, which
  axios reports and the wallet lets through; a \<open>TypeError\<close> thrown by the JavaScript
  runtime or by \<open>toBitcoin\<close>; and the message passed to \<open>Promise.reject\<close>.
\<close>

datatype error =
    AxiosError string
  | TypeError
  | Reject string

text \<open>
  Property access \<open>v.k\<close> for a key that is no built-in property (the wallet reads
  \<open>result\<close> and \<open>chain\<close> only): it throws on \<open>undefined\<close> and \<open>null\<close>, reads the
  entry of an object, and gives \<open>undefined\<close> on every other value.
\<close>

fun get_prop :: "'n json option \<Rightarrow> string \<Rightarrow> error + 'n json option" where
  "get_prop None k = Inl TypeError"
| "get_prop (Some JNull) k = Inl TypeError"
| "get_prop (Some (JObj kvs)) k = Inr (map_of kvs k)"
| "get_prop (Some v) k = Inr None"

text \<open>
  The method call \<open>v.includes(s)\<close> with a string argument: on an array it is
  \<open>Array.prototype.includes\<close> (some element is the string \<open>s\<close>), on a string it is
  \<open>String.prototype.includes\<close> (\<open>s\<close> occurs in it), and every other value has no
  callable \<open>includes\<close>, so the call throws.
\<close>

fun js_includes :: "'n json option \<Rightarrow> string \<Rightarrow> error + bool" where
  "js_includes (Some (JArr xs)) s = Inr (JStr s \<in> set xs)"
| "js_includes (Some (JStr t)) s = Inr (sublist s t)"
| "js_includes v s = Inl TypeError"

text \<open>The comparison \<open>v !== s\<close> of a value with a string.\<close>

fun strict_neq :: "'n json option \<Rightarrow> string \<Rightarrow> bool" where
  "strict_neq (Some (JStr t)) s = (t \<noteq> s)"
| "strict_neq v s = True"

subsection \<open>Requests, the transport and the world\<close>

record AxiosBasicCredentials =
  username :: string
  password :: string

text \<open>
  The body of a JSON-RPC request and the request configuration of axios both have a
  field \<open>method\<close> in the source: the name of the remote procedure is \<open>rpc_method\<close> here
  and the HTTP method is \<open>http_method\<close>. The request for \<open>listwallets\<close> has no \<open>params\<close>
  field.
\<close>

record 'n rpc_data =
  jsonrpc :: string
  rpc_method :: string
  params :: "'n json list option"

type_synonym Method = string

record AxiosRequestConfig =
  url :: string
  http_method :: Method
  auth :: AxiosBasicCredentials

record 'n request = AxiosRequestConfig +
  data :: "'n rpc_data"

type_synonym 'n reply = "string + 'n json"

type_synonym ('s, 'n) transport = "'s \<Rightarrow> 'n request \<Rightarrow> 'n reply \<times> 's"

record ('s, 'n) world =
  node :: 's
  issued :: "('n request \<times> 'n reply) list"

text \<open>\<open>axios.request(config)\<close>: the request is answered by the node and logged.\<close>

definition axios_request ::
  "('s, 'n) transport \<Rightarrow> 'n request \<Rightarrow> ('s, 'n) world \<Rightarrow> 'n reply \<times> ('s, 'n) world" where
  "axios_request T req w =
     (case T (node w) req of
        (rep, s') \<Rightarrow> (rep, \<lparr>node = s', issued = issued w @ [(req, rep)]\<rparr>))"

text \<open>\<open>axios.post(url, data, { auth })\<close>.\<close>

definition axios_post ::
  "('s, 'n) transport \<Rightarrow> string \<Rightarrow> 'n rpc_data \<Rightarrow> AxiosBasicCredentials \<Rightarrow>
   ('s, 'n) world \<Rightarrow> 'n reply \<times> ('s, 'n) world" where
  "axios_post T httpUrl d a w =
     axios_request T \<lparr>url = httpUrl, http_method = ''post'', auth = a, data = d\<rparr> w"

text \<open>The object literal \<open>{ ...config, data: d }\<close>.\<close>

definition spread_data :: "AxiosRequestConfig \<Rightarrow> 'n rpc_data \<Rightarrow> 'n request" where
  "spread_data c d = \<lparr>url = url c, http_method = http_method c, auth = auth c, data = d\<rparr>"

subsection \<open>The wallet\<close>

datatype Network = bitcoin | testnet | regtest

text \<open>At run time a \<open>Network\<close> is one of three strings.\<close>

fun network_string :: "Network \<Rightarrow> string" where
  "network_string bitcoin = ''bitcoin''"
| "network_string testnet = ''testnet''"
| "network_string regtest = ''regtest''"

record BitcoindWallet =
  rpcRequestConfig :: AxiosRequestConfig

text \<open>
  \<open>newInstance\<close>, the asynchronous factory:
  \<^verbatim>\<open>
  const auth = { username, password };
  const walletExists = await axios
    .post(httpUrl, { jsonrpc: "1.0", method: "listwallets" }, { auth })
    .then(res => res.data.result.includes(walletName));
  if (!walletExists) {
    await axios.post(httpUrl,
      { jsonrpc: "1.0", method: "createwallet", params: [walletName] }, { auth });
  }
  const rpcRequestConfig = { url: `${httpUrl}/wallet/${walletName}`, method: "post", auth };
  if (!!privkey) {
    await axios.request({ ...rpcRequestConfig,
      data: { jsonrpc: "1.0", method: "importprivkey", params: [privkey] } });
  }
  return new BitcoindWallet(rpcRequestConfig);
  \<close>
  An omitted \<open>privkey\<close> is \<open>None\<close>; \<open>!!privkey\<close> holds for a string that is not empty. Each
  \<open>await\<close> of a rejected promise ends the function with that rejection.
\<close>

definition newInstance ::
  "('s, 'n) transport \<Rightarrow> string \<Rightarrow> string \<Rightarrow> string \<Rightarrow> string \<Rightarrow> string option \<Rightarrow>
   ('s, 'n) world \<Rightarrow> (error + BitcoindWallet) \<times> ('s, 'n) world" where
  "newInstance T httpUrl user pass walletName privkey w =
    (let a = \<lparr>username = user, password = pass\<rparr> in
     case axios_post T httpUrl
            \<lparr>jsonrpc = ''1.0'', rpc_method = ''listwallets'', params = None\<rparr> a w of
       (Inl e, w1) \<Rightarrow> (Inl (AxiosError e), w1)
     | (Inr body, w1) \<Rightarrow>
        (case get_prop (Some body) ''result'' of
           Inl e \<Rightarrow> (Inl e, w1)
         | Inr r \<Rightarrow>
            (case js_includes r walletName of
               Inl e \<Rightarrow> (Inl e, w1)
             | Inr walletExists \<Rightarrow>
                (case (if \<not> walletExists
                       then (case axios_post T httpUrl
                                    \<lparr>jsonrpc = ''1.0'', rpc_method = ''createwallet'',
                                     params = Some [JStr walletName]\<rparr> a w1 of
                               (Inl e, w2) \<Rightarrow> (Inl (AxiosError e), w2)
                             | (Inr _, w2) \<Rightarrow> (Inr (), w2))
                       else (Inr (), w1)) of
                   (Inl e, w2) \<Rightarrow> (Inl e, w2)
                 | (Inr _, w2) \<Rightarrow>
                    (let config = \<lparr>url = httpUrl @ ''/wallet/'' @ walletName,
                                   http_method = ''post'', auth = a\<rparr> in
                     case (case privkey of
                             None \<Rightarrow> (Inr (), w2)
                           | Some k \<Rightarrow>
                              if k \<noteq> []
                              then (case axios_request T
                                           (spread_data config
                                              \<lparr>jsonrpc = ''1.0'', rpc_method = ''importprivkey'',
                                               params = Some [JStr k]\<rparr>) w2 of
                                      (Inl e, w3) \<Rightarrow> (Inl (AxiosError e), w3)
                                    | (Inr _, w3) \<Rightarrow> (Inr (), w3))
                              else (Inr (), w2)) of
                       (Inl e, w3) \<Rightarrow> (Inl e, w3)
                     | (Inr _, w3) \<Rightarrow> (Inr \<lparr>rpcRequestConfig = config\<rparr>, w3))))))"

text \<open>
  The methods. Each takes the object \<open>this\<close> and the world and returns its outcome, the
  object and the world. A method that returns \<open>res.data.result\<close> returns whatever the
  body holds there, \<open>undefined\<close> included.
\<close>

definition getBalance ::
  "('s, 'n) transport \<Rightarrow> BitcoindWallet \<Rightarrow> ('s, 'n) world \<Rightarrow>
   (error + 'n json option) \<times> BitcoindWallet \<times> ('s, 'n) world" where
  "getBalance T this w =
    (case axios_request T
            (spread_data (rpcRequestConfig this)
               \<lparr>jsonrpc = ''1.0'', rpc_method = ''getbalance'', params = Some []\<rparr>) w of
       (Inl e, w1) \<Rightarrow> (Inl (AxiosError e), this, w1)
     | (Inr body, w1) \<Rightarrow> (get_prop (Some body) ''result'', this, w1))"

definition getAddress ::
  "('s, 'n) transport \<Rightarrow> BitcoindWallet \<Rightarrow> ('s, 'n) world \<Rightarrow>
   (error + 'n json option) \<times> BitcoindWallet \<times> ('s, 'n) world" where
  "getAddress T this w =
    (case axios_request T
            (spread_data (rpcRequestConfig this)
               \<lparr>jsonrpc = ''1.0'', rpc_method = ''getnewaddress'', params = Some []\<rparr>) w of
       (Inl e, w1) \<Rightarrow> (Inl (AxiosError e), this, w1)
     | (Inr body, w1) \<Rightarrow> (get_prop (Some body) ''result'', this, w1))"

text \<open>
  \<open>assertNetwork\<close>:
  \<^verbatim>\<open>
  const res = await axios.request({ ...this.rpcRequestConfig,
    data: { jsonrpc: "1.0", method: "getblockchaininfo", params: [] } });
  if (res.data.result.chain !== network) {
    return Promise.reject(
      `This wallet is only connected to the ${network} network and cannot perform actions on the ${network} network`);
  }
  \<close>
  The message is the template with the requested network in both places.
\<close>

definition mismatch_message :: "Network \<Rightarrow> string" where
  "mismatch_message network =
     ''This wallet is only connected to the '' @ network_string network @
     '' network and cannot perform actions on the '' @ network_string network @ '' network''"

definition assertNetwork ::
  "('s, 'n) transport \<Rightarrow> BitcoindWallet \<Rightarrow> Network \<Rightarrow> ('s, 'n) world \<Rightarrow>
   (error + unit) \<times> BitcoindWallet \<times> ('s, 'n) world" where
  "assertNetwork T this network w =
    (case axios_request T
            (spread_data (rpcRequestConfig this)
               \<lparr>jsonrpc = ''1.0'', rpc_method = ''getblockchaininfo'', params = Some []\<rparr>) w of
       (Inl e, w1) \<Rightarrow> (Inl (AxiosError e), this, w1)
     | (Inr body, w1) \<Rightarrow>
        (case get_prop (Some body) ''result'' of
           Inl e \<Rightarrow> (Inl e, this, w1)
         | Inr r \<Rightarrow>
            (case get_prop r ''chain'' of
               Inl e \<Rightarrow> (Inl e, this, w1)
             | Inr chain \<Rightarrow>
                if strict_neq chain (network_string network)
                then (Inl (Reject (mismatch_message network)), this, w1)
                else (Inr (), this, w1))))"

text \<open>
  \<open>toBitcoin\<close> comes from the package satoshi-bitcoin and is a parameter of the model:
  \<open>None\<close> when it throws its \<open>TypeError\<close> (the number is not an integer). The argument
  list of the request is evaluated after the network check and before the request is
  made.
\<close>

definition sendToAddress ::
  "('s, 'n) transport \<Rightarrow> ('n \<Rightarrow> 'n option) \<Rightarrow> BitcoindWallet \<Rightarrow> string \<Rightarrow> 'n \<Rightarrow> Network \<Rightarrow>
   ('s, 'n) world \<Rightarrow> (error + 'n json option) \<times> BitcoindWallet \<times> ('s, 'n) world" where
  "sendToAddress T toBitcoin this address satoshis network w =
    (case assertNetwork T this network w of
       (Inl e, this1, w1) \<Rightarrow> (Inl e, this1, w1)
     | (Inr _, this1, w1) \<Rightarrow>
        (case toBitcoin satoshis of
           None \<Rightarrow> (Inl TypeError, this1, w1)
         | Some amount \<Rightarrow>
            (case axios_request T
                    (spread_data (rpcRequestConfig this1)
                       \<lparr>jsonrpc = ''1.0'', rpc_method = ''sendtoaddress'',
                        params = Some [JStr address, JNum amount]\<rparr>) w1 of
               (Inl e, w2) \<Rightarrow> (Inl (AxiosError e), this1, w2)
             | (Inr body, w2) \<Rightarrow> (get_prop (Some body) ''result'', this1, w2))))"

definition broadcastTransaction ::
  "('s, 'n) transport \<Rightarrow> BitcoindWallet \<Rightarrow> string \<Rightarrow> Network \<Rightarrow>
   ('s, 'n) world \<Rightarrow> (error + 'n json option) \<times> BitcoindWallet \<times> ('s, 'n) world" where
  "broadcastTransaction T this transactionHex network w =
    (case assertNetwork T this network w of
       (Inl e, this1, w1) \<Rightarrow> (Inl e, this1, w1)
     | (Inr _, this1, w1) \<Rightarrow>
        (case axios_request T
                (spread_data (rpcRequestConfig this1)
                   \<lparr>jsonrpc = ''1.0'', rpc_method = ''sendrawtransaction'',
                    params = Some [JStr transactionHex]\<rparr>) w1 of
           (Inl e, w2) \<Rightarrow> (Inl (AxiosError e), this1, w2)
         | (Inr body, w2) \<Rightarrow> (get_prop (Some body) ''result'', this1, w2)))"

text \<open>\<open>getFee\<close> is synchronous and awaits nothing.\<close>

definition getFee ::
  "BitcoindWallet \<Rightarrow> ('s, 'n) world \<Rightarrow> string \<times> BitcoindWallet \<times> ('s, 'n) world" where
  "getFee this w = (''150'', this, w)"

definition close ::
  "('s, 'n) transport \<Rightarrow> BitcoindWallet \<Rightarrow> ('s, 'n) world \<Rightarrow>
   (error + unit) \<times> BitcoindWallet \<times> ('s, 'n) world" where
  "close T this w =
    (case axios_request T
            (spread_data (rpcRequestConfig this)
               \<lparr>jsonrpc = ''1.0'', rpc_method = ''unloadwallet'', params = Some []\<rparr>) w of
       (Inl e, w1) \<Rightarrow> (Inl (AxiosError e), this, w1)
     | (Inr _, w1) \<Rightarrow> (Inr (), this, w1))"

subsection \<open>Sequences of calls on one wallet\<close>

text \<open>
  A caller holds the object and invokes its methods one after another, whatever each of
  them returns. \<open>invoke\<close> performs one call and drops its outcome; \<open>invoke_all\<close> performs
  a list of calls from left to right.
\<close>

datatype 'n call =
    GetBalance
  | GetAddress
  | SendToAddress string 'n Network
  | BroadcastTransaction string Network
  | GetFee
  | Close

fun invoke ::
  "('s, 'n) transport \<Rightarrow> ('n \<Rightarrow> 'n option) \<Rightarrow> 'n call \<Rightarrow> BitcoindWallet \<times> ('s, 'n) world \<Rightarrow>
   BitcoindWallet \<times> ('s, 'n) world" where
  "invoke T toBitcoin GetBalance (this, w) = snd (getBalance T this w)"
| "invoke T toBitcoin GetAddress (this, w) = snd (getAddress T this w)"
| "invoke T toBitcoin (SendToAddress address satoshis network) (this, w) =
     snd (sendToAddress T toBitcoin this address satoshis network w)"
| "invoke T toBitcoin (BroadcastTransaction transactionHex network) (this, w) =
     snd (broadcastTransaction T this transactionHex network w)"
| "invoke T toBitcoin GetFee (this, w) = snd (getFee this w)"
| "invoke T toBitcoin Close (this, w) = snd (close T this w)"

fun invoke_all ::
  "('s, 'n) transport \<Rightarrow> ('n \<Rightarrow> 'n option) \<Rightarrow> 'n call list \<Rightarrow> BitcoindWallet \<times> ('s, 'n) world \<Rightarrow>
   BitcoindWallet \<times> ('s, 'n) world" where
  "invoke_all T toBitcoin [] s = s"
| "invoke_all T toBitcoin (c # cs) s = invoke_all T toBitcoin cs (invoke T toBitcoin c s)"

subsection \<open>Vocabulary of the specification\<close>

text \<open>The requests, with their answers, that were issued between the world \<open>w\<close> and a later one.\<close>

definition since :: "('s, 'n) world \<Rightarrow> ('s, 'n) world \<Rightarrow> ('n request \<times> 'n reply) list" where
  "since w w' = drop (length (issued w)) (issued w')"

text \<open>The names of the remote procedures in a piece of the log.\<close>

definition methods :: "('n request \<times> 'n reply) list \<Rightarrow> string list" where
  "methods l = map (\<lambda>e. rpc_method (data (fst e))) l"

text \<open>A request was answered with a response and not with a transport failure.\<close>

fun answered :: "('n request \<times> 'n reply) \<Rightarrow> bool" where
  "answered (req, Inr body) = True"
| "answered (req, Inl e) = False"

text \<open>A wallet-scoped request: the configuration of the object with a JSON-RPC body.\<close>

definition rpc_call :: "BitcoindWallet \<Rightarrow> string \<Rightarrow> 'n json list \<Rightarrow> 'n request" where
  "rpc_call this m ps =
     spread_data (rpcRequestConfig this) \<lparr>jsonrpc = ''1.0'', rpc_method = m, params = Some ps\<rparr>"

text \<open>The request for the list of loaded wallets, sent to the endpoint itself.\<close>

definition listwallets_request :: "string \<Rightarrow> AxiosBasicCredentials \<Rightarrow> 'n request" where
  "listwallets_request httpUrl a =
     \<lparr>url = httpUrl, http_method = ''post'', auth = a,
      data = \<lparr>jsonrpc = ''1.0'', rpc_method = ''listwallets'', params = None\<rparr>\<rparr>"

text \<open>The answer to \<open>listwallets\<close> has a \<open>result\<close> that contains the wallet name.\<close>

fun wallet_listed :: "'n reply \<Rightarrow> string \<Rightarrow> bool" where
  "wallet_listed (Inl e) walletName = False"
| "wallet_listed (Inr body) walletName =
     (case get_prop (Some body) ''result'' of
        Inl e \<Rightarrow> False
      | Inr r \<Rightarrow> js_includes r walletName = Inr True)"

text \<open>
  The construction protocol in the words of the specification: query the list of loaded
  wallets; if the name is absent, create the wallet; if a private key was supplied, import
  it, addressed to the wallet's sub-path.
\<close>

definition construction_calls ::
  "string \<Rightarrow> AxiosBasicCredentials \<Rightarrow> string \<Rightarrow> string option \<Rightarrow> bool \<Rightarrow> 'n request list" where
  "construction_calls httpUrl a walletName privkey present =
     [listwallets_request httpUrl a] @
     (if present then []
      else [\<lparr>url = httpUrl, http_method = ''post'', auth = a,
             data = \<lparr>jsonrpc = ''1.0'', rpc_method = ''createwallet'',
                     params = Some [JStr walletName]\<rparr>\<rparr>]) @
     (case privkey of
        None \<Rightarrow> []
      | Some k \<Rightarrow>
          if k = [] then []
          else [\<lparr>url = httpUrl @ ''/wallet/'' @ walletName, http_method = ''post'', auth = a,
                 data = \<lparr>jsonrpc = ''1.0'', rpc_method = ''importprivkey'',
                         params = Some [JStr k]\<rparr>\<rparr>])"

text \<open>
  Issuing a list of requests in order, each awaited before the next is made, up to the
  first one that fails.
\<close>

fun await_all ::
  "('s, 'n) transport \<Rightarrow> 'n request list \<Rightarrow> ('s, 'n) world \<Rightarrow> (error + unit) \<times> ('s, 'n) world" where
  "await_all T [] w = (Inr (), w)"
| "await_all T (q # qs) w =
     (case axios_request T q w of
        (Inl e, w') \<Rightarrow> (Inl (AxiosError e), w')
      | (Inr body, w') \<Rightarrow> await_all T qs w')"

subsection \<open>A node for the examples\<close>

text \<open>
  A small node to run the wallet against: its state is the list of loaded wallets and the
  name of its chain. It lists the wallets, loads a created wallet, reports its chain and
  answers everything else with an empty result. Numbers are rationals, and the
  conversion used with it divides an integral number of satoshis by \<open>10\<^sup>8\<close>.
\<close>

definition example_node :: "(string list \<times> string, rat) transport" where
  "example_node s req =
    (let m = rpc_method (data req) in
     if m = ''listwallets''
     then (Inr (JObj [(''result'', JArr (map JStr (fst s))), (''error'', JNull)]), s)
     else if m = ''createwallet''
     then (case params (data req) of
             Some [JStr name] \<Rightarrow>
               (Inr (JObj [(''result'', JObj [(''name'', JStr name)]), (''error'', JNull)]),
                (fst s @ [name], snd s))
           | _ \<Rightarrow> (Inl ''Request failed with status code 500'', s))
     else if m = ''getblockchaininfo''
     then (Inr (JObj [(''result'', JObj [(''chain'', JStr (snd s))]), (''error'', JNull)]), s)
     else (Inr (JObj [(''result'', JNull), (''error'', JNull)]), s))"

definition example_toBitcoin :: "rat \<Rightarrow> rat option" where
  "example_toBitcoin satoshis =
     (if satoshis \<in> \<int> then Some (satoshis / 100000000) else None)"

definition example_world :: "string list \<Rightarrow> string \<Rightarrow> (string list \<times> string, rat) world" where
  "example_world wallets chain = \<lparr>node = (wallets, chain), issued = []\<rparr>"

definition example_wallet :: BitcoindWallet where
  "example_wallet =
     \<lparr>rpcRequestConfig =
        \<lparr>url = ''http://localhost:18443/wallet/c'', http_method = ''post'',
         auth = \<lparr>username = ''user'', password = ''secret''\<rparr>\<rparr>\<rparr>"

section \<open>Properties\<close>

lemma axios_request_eq:
  "axios_request T req w =
     (fst (T (node w) req),
      \<lparr>node = snd (T (node w) req), issued = issued w @ [(req, fst (T (node w) req))]\<rparr>)"
  by (simp add: axios_request_def split: prod.splits)

lemma assertNetwork_world:
  "snd (snd (assertNetwork T this network w)) =
     \<lparr>node = snd (T (node w) (rpc_call this ''getblockchaininfo'' [])),
      issued = issued w @ [(rpc_call this ''getblockchaininfo'' [],
                            fst (T (node w) (rpc_call this ''getblockchaininfo'' [])))]\<rparr>"
  unfolding assertNetwork_def rpc_call_def axios_request_eq
  by (simp split: sum.splits)

lemma assertNetwork_this: "fst (snd (assertNetwork T this network w)) = this"
  unfolding assertNetwork_def axios_request_eq by (simp split: sum.splits)

lemma assertNetwork_cases:
  obtains r where "assertNetwork T this network w =
     (r, this, \<lparr>node = snd (T (node w) (rpc_call this ''getblockchaininfo'' [])),
      issued = issued w @ [(rpc_call this ''getblockchaininfo'' [],
                            fst (T (node w) (rpc_call this ''getblockchaininfo'' [])))]\<rparr>)"
  using assertNetwork_world[of T this network w] assertNetwork_this[of T this network w]
  by (cases "assertNetwork T this network w") auto

lemma sendToAddress_since:
  "map fst (since w (snd (snd (sendToAddress T toBitcoin this address satoshis network w)))) =
     (case (fst (assertNetwork T this network w), toBitcoin satoshis) of
        (Inr _, Some amount) \<Rightarrow>
           [rpc_call this ''getblockchaininfo'' [],
            rpc_call this ''sendtoaddress'' [JStr address, JNum amount]]
      | _ \<Rightarrow> [rpc_call this ''getblockchaininfo'' []])"
proof -
  obtain r where a: "assertNetwork T this network w =
     (r, this, \<lparr>node = snd (T (node w) (rpc_call this ''getblockchaininfo'' [])),
      issued = issued w @ [(rpc_call this ''getblockchaininfo'' [],
                            fst (T (node w) (rpc_call this ''getblockchaininfo'' [])))]\<rparr>)"
    by (rule assertNetwork_cases)
  show ?thesis
    unfolding sendToAddress_def a
    by (simp add: since_def axios_request_eq rpc_call_def split: sum.splits option.splits)
qed

lemma sendToAddress_grows:
  "issued (snd (snd (sendToAddress T toBitcoin this address satoshis network w))) =
     issued w @ since w (snd (snd (sendToAddress T toBitcoin this address satoshis network w)))"
proof -
  obtain r where a: "assertNetwork T this network w =
     (r, this, \<lparr>node = snd (T (node w) (rpc_call this ''getblockchaininfo'' [])),
      issued = issued w @ [(rpc_call this ''getblockchaininfo'' [],
                            fst (T (node w) (rpc_call this ''getblockchaininfo'' [])))]\<rparr>)"
    by (rule assertNetwork_cases)
  show ?thesis
    unfolding sendToAddress_def a
    by (simp add: since_def axios_request_eq split: sum.splits option.splits)
qed

lemma broadcastTransaction_since:
  "map fst (since w (snd (snd (broadcastTransaction T this transactionHex network w)))) =
     (case fst (assertNetwork T this network w) of
        Inr _ \<Rightarrow>
           [rpc_call this ''getblockchaininfo'' [],
            rpc_call this ''sendrawtransaction'' [JStr transactionHex]]
      | Inl _ \<Rightarrow> [rpc_call this ''getblockchaininfo'' []])"
proof -
  obtain r where a: "assertNetwork T this network w =
     (r, this, \<lparr>node = snd (T (node w) (rpc_call this ''getblockchaininfo'' [])),
      issued = issued w @ [(rpc_call this ''getblockchaininfo'' [],
                            fst (T (node w) (rpc_call this ''getblockchaininfo'' [])))]\<rparr>)"
    by (rule assertNetwork_cases)
  show ?thesis
    unfolding broadcastTransaction_def a
    by (simp add: since_def axios_request_eq rpc_call_def split: sum.splits)
qed

lemma broadcastTransaction_grows:
  "issued (snd (snd (broadcastTransaction T this transactionHex network w))) =
     issued w @ since w (snd (snd (broadcastTransaction T this transactionHex network w)))"
proof -
  obtain r where a: "assertNetwork T this network w =
     (r, this, \<lparr>node = snd (T (node w) (rpc_call this ''getblockchaininfo'' [])),
      issued = issued w @ [(rpc_call this ''getblockchaininfo'' [],
                            fst (T (node w) (rpc_call this ''getblockchaininfo'' [])))]\<rparr>)"
    by (rule assertNetwork_cases)
  show ?thesis
    unfolding broadcastTransaction_def a
    by (simp add: since_def axios_request_eq split: sum.splits)
qed

text \<open>
  Claim C1. For every network, \<open>sendToAddress\<close> and \<open>broadcastTransaction\<close> issue the
  \<open>getblockchaininfo\<close> request first: the requests of one call are either that request
  alone, or that request followed by the funds-moving one (\<open>sendtoaddress\<close>,
  \<open>sendrawtransaction\<close>). When the network check does not succeed, the
  \<open>getblockchaininfo\<close> request is the only one, so the funds-moving request is never
  issued. The log of the world only grows.
\<close>

theorem network_check_precedes_transfer:
  "(let w' = snd (snd (sendToAddress T toBitcoin this address satoshis network w));
        reqs = map fst (since w w')
    in issued w' = issued w @ since w w' \<and>
       (reqs = [rpc_call this ''getblockchaininfo'' []] \<or>
        (\<exists>amount. toBitcoin satoshis = Some amount \<and>
           reqs = [rpc_call this ''getblockchaininfo'' [],
                   rpc_call this ''sendtoaddress'' [JStr address, JNum amount]])) \<and>
       (fst (assertNetwork T this network w) \<noteq> Inr () \<longrightarrow>
          reqs = [rpc_call this ''getblockchaininfo'' []])) \<and>
   (let w' = snd (snd (broadcastTransaction T this transactionHex network w));
        reqs = map fst (since w w')
    in issued w' = issued w @ since w w' \<and>
       (reqs = [rpc_call this ''getblockchaininfo'' []] \<or>
        reqs = [rpc_call this ''getblockchaininfo'' [],
                rpc_call this ''sendrawtransaction'' [JStr transactionHex]]) \<and>
       (fst (assertNetwork T this network w) \<noteq> Inr () \<longrightarrow>
          reqs = [rpc_call this ''getblockchaininfo'' []]))"
  unfolding Let_def sendToAddress_since broadcastTransaction_since
  using sendToAddress_grows[of T toBitcoin this address satoshis network w]
        broadcastTransaction_grows[of T this transactionHex network w]
  by (auto split: sum.splits option.splits)


lemmas example_defs =
  example_node_def example_world_def example_wallet_def example_toBitcoin_def
  axios_request_def axios_post_def spread_data_def rpc_call_def

theorem network_check_precedes_transfer_witness:
  "fst (assertNetwork example_node example_wallet testnet (example_world [''c''] ''bitcoin''))
     \<noteq> Inr () \<and>
   map fst (since (example_world [''c''] ''bitcoin'')
     (snd (snd (sendToAddress example_node example_toBitcoin example_wallet ''addr1'' 50000000
                  testnet (example_world [''c''] ''bitcoin'')))))
     = [rpc_call example_wallet ''getblockchaininfo'' []] \<and>
   map fst (since (example_world [''c''] ''bitcoin'')
     (snd (snd (broadcastTransaction example_node example_wallet ''0200'' testnet
                  (example_world [''c''] ''bitcoin'')))))
     = [rpc_call example_wallet ''getblockchaininfo'' []]"
proof -
  have h: "fst (assertNetwork example_node example_wallet testnet
                  (example_world [''c''] ''bitcoin'')) \<noteq> Inr ()"
    by (simp add: assertNetwork_def example_defs)
  show ?thesis
    using h network_check_precedes_transfer
      [of example_node example_toBitcoin example_wallet "''addr1''" 50000000 testnet
          "example_world [''c''] ''bitcoin''" "''0200''"]
    by (simp add: Let_def)
qed


lemma assertNetwork_fst:
  "fst (assertNetwork T this network w) =
     (case fst (T (node w) (rpc_call this ''getblockchaininfo'' [])) of
        Inl e \<Rightarrow> Inl (AxiosError e)
      | Inr body \<Rightarrow>
         (case get_prop (Some body) ''result'' of
            Inl e \<Rightarrow> Inl e
          | Inr r \<Rightarrow>
             (case get_prop r ''chain'' of
                Inl e \<Rightarrow> Inl e
              | Inr chain \<Rightarrow>
                 if strict_neq chain (network_string network)
                 then Inl (Reject (mismatch_message network))
                 else Inr ())))"
  unfolding assertNetwork_def rpc_call_def axios_request_eq
  by (simp split: sum.splits)

lemma get_prop_error: "get_prop v k = Inl e \<Longrightarrow> e = TypeError"
  by (induction v k rule: get_prop.induct) simp_all

lemma sendToAddress_fst:
  "fst (sendToAddress T toBitcoin this address satoshis network w) =
     (case fst (assertNetwork T this network w) of
        Inl e \<Rightarrow> Inl e
      | Inr _ \<Rightarrow>
         (case toBitcoin satoshis of
            None \<Rightarrow> Inl TypeError
          | Some amount \<Rightarrow>
             (case fst (T (snd (T (node w) (rpc_call this ''getblockchaininfo'' [])))
                          (rpc_call this ''sendtoaddress'' [JStr address, JNum amount])) of
                Inl e \<Rightarrow> Inl (AxiosError e)
              | Inr body \<Rightarrow> get_prop (Some body) ''result'')))"
proof -
  obtain r where a: "assertNetwork T this network w =
     (r, this, \<lparr>node = snd (T (node w) (rpc_call this ''getblockchaininfo'' [])),
      issued = issued w @ [(rpc_call this ''getblockchaininfo'' [],
                            fst (T (node w) (rpc_call this ''getblockchaininfo'' [])))]\<rparr>)"
    by (rule assertNetwork_cases)
  show ?thesis
    unfolding sendToAddress_def a
    by (simp add: axios_request_eq rpc_call_def split: sum.splits option.splits)
qed

lemma broadcastTransaction_fst:
  "fst (broadcastTransaction T this transactionHex network w) =
     (case fst (assertNetwork T this network w) of
        Inl e \<Rightarrow> Inl e
      | Inr _ \<Rightarrow>
         (case fst (T (snd (T (node w) (rpc_call this ''getblockchaininfo'' [])))
                      (rpc_call this ''sendrawtransaction'' [JStr transactionHex])) of
            Inl e \<Rightarrow> Inl (AxiosError e)
          | Inr body \<Rightarrow> get_prop (Some body) ''result''))"
proof -
  obtain r where a: "assertNetwork T this network w =
     (r, this, \<lparr>node = snd (T (node w) (rpc_call this ''getblockchaininfo'' [])),
      issued = issued w @ [(rpc_call this ''getblockchaininfo'' [],
                            fst (T (node w) (rpc_call this ''getblockchaininfo'' [])))]\<rparr>)"
    by (rule assertNetwork_cases)
  show ?thesis
    unfolding broadcastTransaction_def a
    by (simp add: axios_request_eq rpc_call_def split: sum.splits)
qed

text \<open>
  Claim C3. Let the node answer \<open>getblockchaininfo\<close> with a result whose \<open>chain\<close> field
  is the string \<open>chain\<close>. If \<open>chain\<close> is not equal to the requested network, the network
  assertion rejects with the mismatch message, and so do \<open>sendToAddress\<close> and
  \<open>broadcastTransaction\<close>. If it is equal, the assertion succeeds, neither operation
  ends in a rejection with a message, and both proceed: \<open>broadcastTransaction\<close> issues
  \<open>sendrawtransaction\<close>, and \<open>sendToAddress\<close> converts the amount and, when the conversion
  does not throw, issues \<open>sendtoaddress\<close>.
\<close>

theorem network_assertion_exact_match:
  assumes "fst (T (node w) (rpc_call this ''getblockchaininfo'' [])) = Inr body"
    and "get_prop (Some body) ''result'' = Inr r"
    and "get_prop r ''chain'' = Inr (Some (JStr chain))"
  shows "(chain \<noteq> network_string network \<longrightarrow>
            fst (assertNetwork T this network w) = Inl (Reject (mismatch_message network)) \<and>
            fst (sendToAddress T toBitcoin this address satoshis network w) =
              Inl (Reject (mismatch_message network)) \<and>
            fst (broadcastTransaction T this transactionHex network w) =
              Inl (Reject (mismatch_message network))) \<and>
         (chain = network_string network \<longrightarrow>
            fst (assertNetwork T this network w) = Inr () \<and>
            (\<forall>m. fst (sendToAddress T toBitcoin this address satoshis network w)
                    \<noteq> Inl (Reject m)) \<and>
            (\<forall>m. fst (broadcastTransaction T this transactionHex network w)
                    \<noteq> Inl (Reject m)) \<and>
            map fst (since w
                (snd (snd (sendToAddress T toBitcoin this address satoshis network w)))) =
              rpc_call this ''getblockchaininfo'' [] #
              (case toBitcoin satoshis of
                 None \<Rightarrow> []
               | Some amount \<Rightarrow>
                   [rpc_call this ''sendtoaddress'' [JStr address, JNum amount]]) \<and>
            map fst (since w
                (snd (snd (broadcastTransaction T this transactionHex network w)))) =
              [rpc_call this ''getblockchaininfo'' [],
               rpc_call this ''sendrawtransaction'' [JStr transactionHex]])"
proof -
  have check: "fst (assertNetwork T this network w) =
      (if chain \<noteq> network_string network then Inl (Reject (mismatch_message network))
       else Inr ())"
    by (simp add: assertNetwork_fst assms)
  show ?thesis
    unfolding sendToAddress_fst broadcastTransaction_fst sendToAddress_since
      broadcastTransaction_since check
    by (auto split: sum.splits option.splits dest: get_prop_error)
qed

theorem network_assertion_exact_match_witness:
  "fst (example_node (node (example_world [''c''] ''regtest''))
          (rpc_call example_wallet ''getblockchaininfo'' [])) =
     Inr (JObj [(''result'', JObj [(''chain'', JStr ''regtest'')]), (''error'', JNull)]) \<and>
   ''regtest'' \<noteq> network_string testnet \<and>
   fst (sendToAddress example_node example_toBitcoin example_wallet ''addr1'' 50000000 testnet
          (example_world [''c''] ''regtest'')) = Inl (Reject (mismatch_message testnet)) \<and>
   ''regtest'' = network_string regtest \<and>
   fst (assertNetwork example_node example_wallet regtest (example_world [''c''] ''regtest''))
     = Inr () \<and>
   map fst (since (example_world [''c''] ''regtest'')
     (snd (snd (sendToAddress example_node example_toBitcoin example_wallet ''addr1'' 50000000
                  regtest (example_world [''c''] ''regtest''))))) =
     [rpc_call example_wallet ''getblockchaininfo'' [],
      rpc_call example_wallet ''sendtoaddress'' [JStr ''addr1'', JNum (1 / 2)]]"
proof -
  have reply: "fst (example_node (node (example_world [''c''] ''regtest''))
          (rpc_call example_wallet ''getblockchaininfo'' [])) =
     Inr (JObj [(''result'', JObj [(''chain'', JStr ''regtest'')]), (''error'', JNull)])"
    by (simp add: example_defs)
  have res: "get_prop (Some (JObj [(''result'', JObj [(''chain'', JStr ''regtest'')]),
                                   (''error'', JNull :: rat json)])) ''result'' =
               Inr (Some (JObj [(''chain'', JStr ''regtest'')]))"
    by simp
  have chain: "get_prop (Some (JObj [(''chain'', JStr ''regtest'' :: rat json)])) ''chain'' =
                 Inr (Some (JStr ''regtest''))"
    by simp
  have amount: "example_toBitcoin 50000000 = Some (1 / 2)"
    by (simp add: example_toBitcoin_def)
  show ?thesis
    using reply
      network_assertion_exact_match [where T = example_node and this = example_wallet
        and w = "example_world [''c''] ''regtest''" and network = testnet
        and toBitcoin = example_toBitcoin and address = "''addr1''" and satoshis = 50000000
        and transactionHex = "''0200''", OF reply res chain]
      network_assertion_exact_match [where T = example_node and this = example_wallet
        and w = "example_world [''c''] ''regtest''" and network = regtest
        and toBitcoin = example_toBitcoin and address = "''addr1''" and satoshis = 50000000
        and transactionHex = "''0200''", OF reply res chain]
    by (simp add: amount)
qed


lemma methods_map_fst: "methods l = map (\<lambda>req. rpc_method (data req)) (map fst l)"
  by (simp add: methods_def)

lemma network_string_in_message: "sublist (network_string network) (mismatch_message network)"
  unfolding mismatch_message_def by (rule sublist_appendI)

text \<open>
  Claim C7. Whenever the network check fails, that is the node answers and the \<open>chain\<close>
  it reports (a string or not, present or not) is not strictly equal to the requested
  network, \<open>sendToAddress\<close> and \<open>broadcastTransaction\<close> are rejected with a message in
  which the name of the requested network occurs, and \<open>getblockchaininfo\<close> is the only
  remote procedure called: no funds-moving request is issued.
\<close>

theorem mismatch_rejects_without_transfer:
  assumes "fst (T (node w) (rpc_call this ''getblockchaininfo'' [])) = Inr body"
    and "get_prop (Some body) ''result'' = Inr r"
    and "get_prop r ''chain'' = Inr chain"
    and "strict_neq chain (network_string network)"
  shows "fst (sendToAddress T toBitcoin this address satoshis network w) =
           Inl (Reject (mismatch_message network)) \<and>
         fst (broadcastTransaction T this transactionHex network w) =
           Inl (Reject (mismatch_message network)) \<and>
         sublist (network_string network) (mismatch_message network) \<and>
         methods (since w
           (snd (snd (sendToAddress T toBitcoin this address satoshis network w)))) =
           [''getblockchaininfo''] \<and>
         methods (since w
           (snd (snd (broadcastTransaction T this transactionHex network w)))) =
           [''getblockchaininfo'']"
proof -
  have check: "fst (assertNetwork T this network w) = Inl (Reject (mismatch_message network))"
    by (simp add: assertNetwork_fst assms)
  have s: "map fst (since w
      (snd (snd (sendToAddress T toBitcoin this address satoshis network w)))) =
      [rpc_call this ''getblockchaininfo'' []]"
    by (simp add: sendToAddress_since check)
  have b: "map fst (since w
      (snd (snd (broadcastTransaction T this transactionHex network w)))) =
      [rpc_call this ''getblockchaininfo'' []]"
    by (simp add: broadcastTransaction_since check)
  show ?thesis
    unfolding methods_map_fst s b sendToAddress_fst broadcastTransaction_fst check
    by (simp add: network_string_in_message rpc_call_def spread_data_def)
qed

theorem mismatch_rejects_without_transfer_witness:
  "strict_neq (Some (JStr ''bitcoin'' :: rat json)) (network_string testnet) \<and>
   fst (sendToAddress example_node example_toBitcoin example_wallet ''addr1'' 50000000 testnet
          (example_world [''c''] ''bitcoin'')) =
     Inl (Reject ''This wallet is only connected to the testnet network and cannot perform actions on the testnet network'') \<and>
   methods (since (example_world [''c''] ''bitcoin'')
     (snd (snd (sendToAddress example_node example_toBitcoin example_wallet ''addr1'' 50000000
                  testnet (example_world [''c''] ''bitcoin''))))) = [''getblockchaininfo'']"
proof -
  have reply: "fst (example_node (node (example_world [''c''] ''bitcoin''))
          (rpc_call example_wallet ''getblockchaininfo'' [])) =
     Inr (JObj [(''result'', JObj [(''chain'', JStr ''bitcoin'')]), (''error'', JNull)])"
    by (simp add: example_defs)
  have res: "get_prop (Some (JObj [(''result'', JObj [(''chain'', JStr ''bitcoin'')]),
                                   (''error'', JNull :: rat json)])) ''result'' =
               Inr (Some (JObj [(''chain'', JStr ''bitcoin'')]))"
    by simp
  have chain: "get_prop (Some (JObj [(''chain'', JStr ''bitcoin'' :: rat json)])) ''chain'' =
                 Inr (Some (JStr ''bitcoin''))"
    by simp
  have neq: "strict_neq (Some (JStr ''bitcoin'' :: rat json)) (network_string testnet)"
    by simp
  show ?thesis
    using neq
      mismatch_rejects_without_transfer [where T = example_node and this = example_wallet
        and w = "example_world [''c''] ''bitcoin''" and network = testnet
        and toBitcoin = example_toBitcoin and address = "''addr1''" and satoshis = 50000000
        and transactionHex = "''0200''", OF reply res chain neq]
    by (simp add: mismatch_message_def)
qed

lemma other_network_not_in_message:
  "other \<noteq> network \<Longrightarrow> \<not> sublist (network_string other) (mismatch_message network)"
  by (cases other; cases network) (simp_all add: mismatch_message_def sublist_code(3))

text \<open>
  Claim C9, as amended. Whenever the network assertion rejects with a message, that
  message is the fixed text with the requested network in both of its two positions; it
  is determined by the requested network alone, so the chain reported by the node is
  never put into it. A reported chain that is another of the three network names does
  not occur in the message.
\<close>

theorem mismatch_message_requested_network_only:
  "(fst (assertNetwork T this network w) = Inl (Reject m) \<longrightarrow>
      m = ''This wallet is only connected to the '' @ network_string network @
          '' network and cannot perform actions on the '' @ network_string network @
          '' network'') \<and>
   (\<forall>other. other \<noteq> network \<longrightarrow>
      \<not> sublist (network_string other) (mismatch_message network))"
proof (intro conjI impI allI)
  assume "fst (assertNetwork T this network w) = Inl (Reject m)"
  then have "m = mismatch_message network"
    unfolding assertNetwork_fst
    by (auto split: sum.splits if_splits dest: get_prop_error)
  then show "m = ''This wallet is only connected to the '' @ network_string network @
          '' network and cannot perform actions on the '' @ network_string network @
          '' network''"
    by (simp only: mismatch_message_def)
next
  fix other
  assume "other \<noteq> network"
  then show "\<not> sublist (network_string other) (mismatch_message network)"
    by (rule other_network_not_in_message)
qed

text \<open>
  The claim as it was stated, that the message never contains the chain reported by the
  node, fails: a node on the test chain reports \<open>test\<close>, which differs from the requested
  \<open>testnet\<close> and occurs in the message, inside the name of the requested network.
\<close>

theorem mismatch_message_contains_reported_chain:
  "fst (example_node (node (example_world [''c''] ''test''))
          (rpc_call example_wallet ''getblockchaininfo'' [])) =
     Inr (JObj [(''result'', JObj [(''chain'', JStr ''test'')]), (''error'', JNull)]) \<and>
   fst (assertNetwork example_node example_wallet testnet (example_world [''c''] ''test'')) =
     Inl (Reject (mismatch_message testnet)) \<and>
   sublist ''test'' (mismatch_message testnet)"
  by (simp add: assertNetwork_def example_defs mismatch_message_def sublist_code(3))


theorem mismatch_message_requested_network_only_witness:
  "fst (assertNetwork example_node example_wallet testnet (example_world [''c''] ''bitcoin'')) =
     Inl (Reject ''This wallet is only connected to the testnet network and cannot perform actions on the testnet network'') \<and>
   bitcoin \<noteq> testnet \<and>
   \<not> sublist (network_string bitcoin) (mismatch_message testnet)"
proof -
  have h: "fst (assertNetwork example_node example_wallet testnet
                 (example_world [''c''] ''bitcoin'')) =
     Inl (Reject ''This wallet is only connected to the testnet network and cannot perform actions on the testnet network'')"
    by (simp add: assertNetwork_def example_defs mismatch_message_def)
  have d: "bitcoin \<noteq> testnet"
    by simp
  from d mismatch_message_requested_network_only
      [of example_node example_wallet testnet "example_world [''c''] ''bitcoin''"
          "''This wallet is only connected to the testnet network and cannot perform actions on the testnet network''"]
  have "\<not> sublist (network_string bitcoin) (mismatch_message testnet)"
    by blast
  with h d show ?thesis
    by blast
qed

text \<open>
  Claim C6. \<open>getFee\<close> returns the string \<open>150\<close> for every wallet and every world; it
  leaves the world as it is and issues no request.
\<close>

theorem getFee_constant:
  "fst (getFee this w) = ''150'' \<and> snd (snd (getFee this w)) = w \<and>
   since w (snd (snd (getFee this w))) = []"
  by (simp add: getFee_def since_def)

lemma getBalance_this: "fst (snd (getBalance T this w)) = this"
  unfolding getBalance_def axios_request_eq by (simp split: sum.splits)

lemma getAddress_this: "fst (snd (getAddress T this w)) = this"
  unfolding getAddress_def axios_request_eq by (simp split: sum.splits)

lemma close_this: "fst (snd (close T this w)) = this"
  unfolding close_def axios_request_eq by (simp split: sum.splits)

lemma getFee_this: "fst (snd (getFee this w)) = this"
  by (simp add: getFee_def)

lemma sendToAddress_this:
  "fst (snd (sendToAddress T toBitcoin this address satoshis network w)) = this"
proof -
  obtain r where a: "assertNetwork T this network w =
     (r, this, \<lparr>node = snd (T (node w) (rpc_call this ''getblockchaininfo'' [])),
      issued = issued w @ [(rpc_call this ''getblockchaininfo'' [],
                            fst (T (node w) (rpc_call this ''getblockchaininfo'' [])))]\<rparr>)"
    by (rule assertNetwork_cases)
  show ?thesis
    unfolding sendToAddress_def a
    by (simp add: axios_request_eq split: sum.splits option.splits)
qed

lemma broadcastTransaction_this:
  "fst (snd (broadcastTransaction T this transactionHex network w)) = this"
proof -
  obtain r where a: "assertNetwork T this network w =
     (r, this, \<lparr>node = snd (T (node w) (rpc_call this ''getblockchaininfo'' [])),
      issued = issued w @ [(rpc_call this ''getblockchaininfo'' [],
                            fst (T (node w) (rpc_call this ''getblockchaininfo'' [])))]\<rparr>)"
    by (rule assertNetwork_cases)
  show ?thesis
    unfolding broadcastTransaction_def a
    by (simp add: axios_request_eq split: sum.splits)
qed

lemma invoke_this: "fst (invoke T toBitcoin c (this, w)) = this"
  by (cases c)
     (simp_all add: getBalance_this getAddress_this sendToAddress_this
        broadcastTransaction_this getFee_this close_this)

lemma invoke_all_this: "fst (invoke_all T toBitcoin cs (this, w)) = this"
proof (induction cs arbitrary: w)
  case Nil
  show ?case by simp
next
  case (Cons c cs)
  obtain this1 w1 where s: "invoke T toBitcoin c (this, w) = (this1, w1)"
    by (cases "invoke T toBitcoin c (this, w)")
  have "this1 = this"
    using invoke_this[of T toBitcoin c this w] s by simp
  with s Cons.IH[of w1] show ?case by simp
qed

text \<open>
  Claim C8. No method changes the object: after \<open>getBalance\<close>, \<open>getAddress\<close>,
  \<open>sendToAddress\<close>, \<open>broadcastTransaction\<close>, \<open>getFee\<close> and \<open>close\<close>, with whatever outcome,
  the object is the one the method was called on. So it is after any sequence of calls,
  failed ones included, and a further call made after such a sequence is a call on the
  object as it was constructed.
\<close>

theorem handle_unchanged_by_every_call:
  "fst (snd (getBalance T this w)) = this \<and>
   fst (snd (getAddress T this w)) = this \<and>
   fst (snd (sendToAddress T toBitcoin this address satoshis network w)) = this \<and>
   fst (snd (broadcastTransaction T this transactionHex network w)) = this \<and>
   fst (snd (getFee this w)) = this \<and>
   fst (snd (close T this w)) = this \<and>
   fst (invoke_all T toBitcoin cs (this, w)) = this \<and>
   invoke_all T toBitcoin (cs @ [c]) (this, w) =
     invoke T toBitcoin c (this, snd (invoke_all T toBitcoin cs (this, w)))"
proof -
  have app: "invoke_all T toBitcoin (cs @ [c]) s =
      invoke T toBitcoin c (invoke_all T toBitcoin cs s)" for s
    by (induction cs arbitrary: s) simp_all
  have "invoke_all T toBitcoin cs (this, w) = (this, snd (invoke_all T toBitcoin cs (this, w)))"
    using invoke_all_this[of T toBitcoin cs this w]
    by (cases "invoke_all T toBitcoin cs (this, w)") simp
  then have "invoke_all T toBitcoin (cs @ [c]) (this, w) =
     invoke T toBitcoin c (this, snd (invoke_all T toBitcoin cs (this, w)))"
    using app[of "(this, w)"] by simp
  then show ?thesis
    by (simp add: getBalance_this getAddress_this sendToAddress_this
        broadcastTransaction_this getFee_this close_this invoke_all_this)
qed


lemma newInstance_eq:
  "newInstance T httpUrl user pass walletName privkey w =
    (let a = \<lparr>username = user, password = pass\<rparr>;
         w1 = snd (axios_request T (listwallets_request httpUrl a) w)
     in case fst (T (node w) (listwallets_request httpUrl a)) of
          Inl e \<Rightarrow> (Inl (AxiosError e), w1)
        | Inr body \<Rightarrow>
           (case get_prop (Some body) ''result'' of
              Inl e \<Rightarrow> (Inl e, w1)
            | Inr r \<Rightarrow>
               (case js_includes r walletName of
                  Inl e \<Rightarrow> (Inl e, w1)
                | Inr walletExists \<Rightarrow>
                   (case await_all T
                           (tl (construction_calls httpUrl a walletName privkey walletExists))
                           w1 of
                      (Inl e, w3) \<Rightarrow> (Inl e, w3)
                    | (Inr u, w3) \<Rightarrow>
                       (Inr \<lparr>rpcRequestConfig =
                              \<lparr>url = httpUrl @ ''/wallet/'' @ walletName, http_method = ''post'',
                               auth = a\<rparr>\<rparr>, w3)))))"
proof (cases privkey)
  case None
  show ?thesis
    unfolding None newInstance_def axios_post_def axios_request_eq Let_def 
    construction_calls_def listwallets_request_def spread_data_def
    by (simp add: axios_request_eq split: sum.splits)
next
  case (Some k)
  show ?thesis
  proof (cases "k = []")
    case True
    show ?thesis
      unfolding Some True newInstance_def axios_post_def axios_request_eq Let_def 
        construction_calls_def listwallets_request_def spread_data_def
      by (simp add: axios_request_eq split: sum.splits)
  next
    case False
    then show ?thesis
      unfolding Some newInstance_def axios_post_def axios_request_eq Let_def 
        construction_calls_def listwallets_request_def spread_data_def
      by (simp add: axios_request_eq split: sum.splits)
  qed
qed


lemma since_append: "issued w' = issued w @ l \<Longrightarrow> since w w' = l"
  by (simp add: since_def)

lemma await_all_trace:
  "\<exists>l. issued (snd (await_all T qs w)) = issued w @ l \<and>
       prefix (map fst l) qs \<and>
       list_all answered (butlast l) \<and>
       (\<forall>u. fst (await_all T qs w) = Inr u \<longrightarrow> map fst l = qs \<and> list_all answered l)"
proof (induction qs arbitrary: w)
  case Nil
  show ?case by simp
next
  case (Cons q qs)
  define rep where "rep = fst (T (node w) q)"
  define w1 where "w1 = \<lparr>node = snd (T (node w) q), issued = issued w @ [(q, rep)]\<rparr>"
  have req: "axios_request T q w = (rep, w1)"
    by (simp add: axios_request_eq rep_def w1_def)
  show ?case
  proof (cases rep)
    case (Inl e)
    then have "await_all T (q # qs) w = (Inl (AxiosError e), w1)"
      by (simp add: req)
    then show ?thesis
      by (intro exI[of _ "[(q, rep)]"]) (simp add: w1_def)
  next
    case (Inr body)
    then have eq: "await_all T (q # qs) w = await_all T qs w1"
      by (simp add: req)
    from Cons.IH[of w1] obtain l where l:
      "issued (snd (await_all T qs w1)) = issued w1 @ l"
      "prefix (map fst l) qs"
      "list_all answered (butlast l)"
      "\<forall>u. fst (await_all T qs w1) = Inr u \<longrightarrow> map fst l = qs \<and> list_all answered l"
      by blast
    have a: "answered (q, rep)"
      by (simp add: Inr)
    show ?thesis
      unfolding eq
      by (intro exI[of _ "(q, rep) # l"]) (use l a in \<open>simp add: w1_def\<close>)
  qed
qed

lemma construction_calls_Cons:
  "construction_calls httpUrl a walletName privkey present =
     listwallets_request httpUrl a # tl (construction_calls httpUrl a walletName privkey present)"
  by (simp add: construction_calls_def)

lemma newInstance_protocol:
  fixes T :: "('s, 'n) transport" and user pass httpUrl walletName privkey w
  defines "a \<equiv> \<lparr>username = user, password = pass\<rparr>"
  defines "present \<equiv>
    wallet_listed (fst (T (node w) (listwallets_request httpUrl a))) walletName"
  defines "protocol \<equiv> construction_calls httpUrl a walletName privkey present"
  defines "r \<equiv> fst (newInstance T httpUrl user pass walletName privkey w)"
  defines "w' \<equiv> snd (newInstance T httpUrl user pass walletName privkey w)"
  shows "issued w' = issued w @ since w w' \<and>
    since w w' \<noteq> [] \<and>
    prefix (map fst (since w w')) protocol \<and>
    list_all answered (butlast (since w w')) \<and>
    (\<forall>this. r = Inr this \<longrightarrow> map fst (since w w') = protocol \<and>
     list_all answered (since w w') \<and>
     this = \<lparr>rpcRequestConfig =
           \<lparr>url = httpUrl @ ''/wallet/'' @ walletName, http_method = ''post'', auth = a\<rparr>\<rparr>)"
proof -
  define lw :: "'n request" where "lw = listwallets_request httpUrl a"
  define rep where "rep = fst (T (node w) lw)"
  define w1 where "w1 = snd (axios_request T lw w)"
  have w1: "issued w1 = issued w @ [(lw, rep)]"
    by (simp add: w1_def rep_def axios_request_eq)
  have p: "protocol = lw # tl protocol"
    unfolding protocol_def lw_def by (rule construction_calls_Cons)
  have failed: ?thesis if "r = Inl e" "w' = w1" for e
  proof -
    have "since w w' = [(lw, rep)]"
      using w1 that by (simp add: since_append)
    moreover have "prefix [lw] protocol"
      by (subst p) simp
    ultimately show ?thesis
      using w1 that by simp
  qed
  note eq = newInstance_eq[of T httpUrl user pass walletName privkey w,
      unfolded Let_def, folded a_def, folded lw_def, folded rep_def w1_def]
  show ?thesis
  proof (cases rep)
    case (Inl e)
    then show ?thesis
      by (intro failed[of "AxiosError e"]) (simp_all add: r_def w'_def eq)
  next
    case body: (Inr body)
    show ?thesis
    proof (cases "get_prop (Some body) ''result''")
      case (Inl e)
      then show ?thesis
        by (intro failed[of e]) (simp_all add: r_def w'_def eq body)
    next
      case res: (Inr res)
      show ?thesis
      proof (cases "js_includes res walletName")
        case (Inl e)
        then show ?thesis
          by (intro failed[of e]) (simp_all add: r_def w'_def eq body res)
      next
        case (Inr walletExists)
        have present: "present = walletExists"
          using body res Inr
          by (simp add: present_def rep_def[symmetric] lw_def[symmetric])
        obtain l where l:
          "issued (snd (await_all T (tl protocol) w1)) = issued w1 @ l"
          "prefix (map fst l) (tl protocol)"
          "list_all answered (butlast l)"
          "\<forall>u. fst (await_all T (tl protocol) w1) = Inr u \<longrightarrow>
               map fst l = tl protocol \<and> list_all answered l"
          using await_all_trace[of T "tl protocol" w1] by blast
        obtain r3 w3 where run: "await_all T (tl protocol) w1 = (r3, w3)"
          by (cases "await_all T (tl protocol) w1")
        have new: "newInstance T httpUrl user pass walletName privkey w =
          (case r3 of Inl e \<Rightarrow> Inl e | Inr u \<Rightarrow> Inr \<lparr>rpcRequestConfig =
              \<lparr>url = httpUrl @ ''/wallet/'' @ walletName, http_method = ''post'', auth = a\<rparr>\<rparr>, w3)"
          using run by (simp add: eq body res Inr protocol_def present split: sum.splits)
        have w': "w' = w3"
          by (simp add: w'_def new)
        have iss: "issued w' = issued w @ (lw, rep) # l"
          using l(1) w1 run by (simp add: w')
        have s: "since w w' = (lw, rep) # l"
          by (rule since_append[OF iss])
        have a: "answered (lw, rep)"
          by (simp add: body)
        have "issued w' = issued w @ since w w'"
          unfolding s by (rule iss)
        moreover have "prefix (map fst (since w w')) protocol"
          by (subst p) (simp add: s l(2))
        moreover have "list_all answered (butlast (since w w'))"
          using l(3) a by (simp add: s)
        moreover have "map fst (since w w') = protocol \<and> list_all answered (since w w') \<and>
          this = \<lparr>rpcRequestConfig =
              \<lparr>url = httpUrl @ ''/wallet/'' @ walletName, http_method = ''post'', auth = a\<rparr>\<rparr>"
          if "r = Inr this" for this
        proof -
          from that obtain u where u: "r3 = Inr u" and t: "this = \<lparr>rpcRequestConfig =
              \<lparr>url = httpUrl @ ''/wallet/'' @ walletName, http_method = ''post'', auth = a\<rparr>\<rparr>"
            unfolding r_def new by (cases r3) auto
          from u run l(4) have "map fst l = tl protocol" "list_all answered l"
            by simp_all
          then show ?thesis
            using a t by (subst p) (simp add: s)
        qed
        ultimately show ?thesis
          by (simp add: s)
      qed
    qed
  qed
qed


text \<open>
  Claim C5. The requests issued by \<open>newInstance\<close> are, in this order, a non-empty initial
  part of the construction protocol: \<open>listwallets\<close>, then \<open>createwallet\<close> only if the
  wallet name was absent from the list, then \<open>importprivkey\<close>, sent to the wallet's
  sub-path, only if a private key was supplied. Every request but the last issued was
  answered before the next one was made. When \<open>newInstance\<close> returns a wallet, the whole
  protocol has been issued and answered, and the wallet's URL is the endpoint followed by
  \<open>/wallet/\<close> and the wallet name.
\<close>

theorem construction_protocol_order:
  "(let a = \<lparr>username = user, password = pass\<rparr>;
        present = wallet_listed (fst (T (node w) (listwallets_request httpUrl a))) walletName;
        protocol = construction_calls httpUrl a walletName privkey present;
        r = fst (newInstance T httpUrl user pass walletName privkey w);
        w' = snd (newInstance T httpUrl user pass walletName privkey w);
        new = since w w'
    in issued w' = issued w @ new \<and>
       new \<noteq> [] \<and>
       prefix (map fst new) protocol \<and>
       list_all answered (butlast new) \<and>
       (\<forall>this. r = Inr this \<longrightarrow>
          map fst new = protocol \<and>
          list_all answered new \<and>
          this = \<lparr>rpcRequestConfig =
                   \<lparr>url = httpUrl @ ''/wallet/'' @ walletName, http_method = ''post'',
                    auth = a\<rparr>\<rparr>))"
  unfolding Let_def by (rule newInstance_protocol)

lemmas newInstance_example_defs =
  newInstance_def example_node_def example_world_def axios_request_def axios_post_def
  spread_data_def since_def methods_def listwallets_request_def construction_calls_def Let_def

theorem construction_protocol_order_witness:
  "fst (newInstance example_node ''http://localhost:18443'' ''user'' ''secret'' ''c''
          (Some ''cVt4o7BGAig1UXywgGSmARhxMdzP5qvQsxKkSsc1XEkw3tDTQFpy'')
          (example_world [''a'', ''b''] ''regtest'')) = Inr example_wallet \<and>
   map fst (since (example_world [''a'', ''b''] ''regtest'')
     (snd (newInstance example_node ''http://localhost:18443'' ''user'' ''secret'' ''c''
             (Some ''cVt4o7BGAig1UXywgGSmARhxMdzP5qvQsxKkSsc1XEkw3tDTQFpy'')
             (example_world [''a'', ''b''] ''regtest'')))) =
     [listwallets_request ''http://localhost:18443''
        \<lparr>username = ''user'', password = ''secret''\<rparr>,
      \<lparr>url = ''http://localhost:18443'', http_method = ''post'',
       auth = \<lparr>username = ''user'', password = ''secret''\<rparr>,
       data = \<lparr>jsonrpc = ''1.0'', rpc_method = ''createwallet'',
               params = Some [JStr ''c'']\<rparr>\<rparr>,
      rpc_call example_wallet ''importprivkey''
        [JStr ''cVt4o7BGAig1UXywgGSmARhxMdzP5qvQsxKkSsc1XEkw3tDTQFpy'']]"
proof -
  have h: "fst (newInstance example_node ''http://localhost:18443'' ''user'' ''secret'' ''c''
          (Some ''cVt4o7BGAig1UXywgGSmARhxMdzP5qvQsxKkSsc1XEkw3tDTQFpy'')
          (example_world [''a'', ''b''] ''regtest'')) = Inr example_wallet"
    by (simp add: newInstance_example_defs example_wallet_def)
  have l: "\<not> wallet_listed
      (fst (example_node (node (example_world [''a'', ''b''] ''regtest''))
         (listwallets_request ''http://localhost:18443''
            \<lparr>username = ''user'', password = ''secret''\<rparr>))) ''c''"
    by (simp add: example_node_def example_world_def listwallets_request_def)
  show ?thesis
    using h l construction_protocol_order
      [of "''user''" "''secret''" example_node "example_world [''a'', ''b''] ''regtest''"
          "''http://localhost:18443''" "''c''"
          "Some ''cVt4o7BGAig1UXywgGSmARhxMdzP5qvQsxKkSsc1XEkw3tDTQFpy''"]
    by (simp add: Let_def construction_calls_def rpc_call_def spread_data_def
          example_wallet_def)
qed

lemma newInstance_prefix:
  "prefix (map fst (since w (snd (newInstance T httpUrl user pass walletName privkey w))))
     (construction_calls httpUrl \<lparr>username = user, password = pass\<rparr> walletName privkey
        (wallet_listed
           (fst (T (node w)
              (listwallets_request httpUrl \<lparr>username = user, password = pass\<rparr>)))
           walletName))"
  using newInstance_protocol[where w = w and T = T and httpUrl = httpUrl and user = user
      and pass = pass and walletName = walletName and privkey = privkey]
  by (elim conjE)

lemma newInstance_methods:
  fixes T :: "('s, 'n) transport"
  shows "prefix (methods (since w (snd (newInstance T httpUrl user pass walletName privkey w))))
     (map (\<lambda>req. rpc_method (data req))
        (construction_calls httpUrl \<lparr>username = user, password = pass\<rparr> walletName privkey
           (wallet_listed
              (fst (T (node w)
                 (listwallets_request httpUrl \<lparr>username = user, password = pass\<rparr>)))
              walletName) :: 'n request list))"
  unfolding methods_map_fst by (rule map_mono_prefix) (rule newInstance_prefix)

lemma newInstance_grows:
  "issued (snd (newInstance T httpUrl user pass walletName privkey w)) =
     issued w @ since w (snd (newInstance T httpUrl user pass walletName privkey w))"
  using newInstance_protocol[where w = w and T = T and httpUrl = httpUrl and user = user
      and pass = pass and walletName = walletName and privkey = privkey]
  by (elim conjE)

lemma prefix_filter_length: "prefix xs ys \<Longrightarrow> length (filter P xs) \<le> length (filter P ys)"
  by (auto simp: prefix_def)

lemma listed_no_createwallet:
  fixes T :: "('s, 'n) transport"
  assumes "wallet_listed
      (fst (T (node w) (listwallets_request httpUrl \<lparr>username = user, password = pass\<rparr>)))
      walletName"
  shows "''createwallet'' \<notin>
     set (methods (since w (snd (newInstance T httpUrl user pass walletName privkey w))))"
proof -
  have "''createwallet'' \<notin> set (map (\<lambda>req. rpc_method (data req))
        (construction_calls httpUrl \<lparr>username = user, password = pass\<rparr> walletName privkey
           True :: 'n request list))"
    by (cases privkey) (simp_all add: construction_calls_def listwallets_request_def)
  with set_mono_prefix[OF newInstance_methods[where w = w and T = T and httpUrl = httpUrl and user = user and pass = pass
      and walletName = walletName and privkey = privkey]]
  show ?thesis
    using assms by auto
qed

text \<open>
  Claim C4. If the result of \<open>listwallets\<close> contains the wallet name, \<open>newInstance\<close> issues
  no \<open>createwallet\<close> request. In particular, when the construction is run a second time
  with the same wallet name and the node then lists the wallet, the second run issues no
  \<open>createwallet\<close>, and both runs together issue at most one.
\<close>

theorem listed_wallet_is_not_created:
  fixes T :: "('s, 'n) transport"
  shows "(let a = \<lparr>username = user, password = pass\<rparr>;
        w1 = snd (newInstance T httpUrl user pass walletName privkey w);
        w2 = snd (newInstance T httpUrl user pass walletName privkey w1)
    in (wallet_listed (fst (T (node w) (listwallets_request httpUrl a))) walletName \<longrightarrow>
          ''createwallet'' \<notin> set (methods (since w w1))) \<and>
       (wallet_listed (fst (T (node w1) (listwallets_request httpUrl a))) walletName \<longrightarrow>
          ''createwallet'' \<notin> set (methods (since w1 w2)) \<and>
          length (filter (\<lambda>m. m = ''createwallet'') (methods (since w w2))) \<le> 1))"
proof -
  define a where "a = \<lparr>username = user, password = pass\<rparr>"
  define w1 where "w1 = snd (newInstance T httpUrl user pass walletName privkey w)"
  define w2 where "w2 = snd (newInstance T httpUrl user pass walletName privkey w1)"
  have first: "''createwallet'' \<notin> set (methods (since w w1))"
    if "wallet_listed (fst (T (node w) (listwallets_request httpUrl a))) walletName"
    using that unfolding a_def w1_def by (rule listed_no_createwallet)
  have second: "''createwallet'' \<notin> set (methods (since w1 w2))"
    if "wallet_listed (fst (T (node w1) (listwallets_request httpUrl a))) walletName"
    using that unfolding a_def w2_def by (rule listed_no_createwallet)
  have g1: "issued w1 = issued w @ since w w1"
    unfolding w1_def by (rule newInstance_grows)
  have g2: "issued w2 = issued w1 @ since w1 w2"
    unfolding w2_def by (rule newInstance_grows)
  have "issued w2 = issued w @ (since w w1 @ since w1 w2)"
    by (subst g2, subst g1) simp
  then have "since w w2 = since w w1 @ since w1 w2"
    by (rule since_append)
  then have both: "methods (since w w2) = methods (since w w1) @ methods (since w1 w2)"
    by (simp add: methods_def)
  have "length (filter (\<lambda>m. m = ''createwallet'')
          (map (\<lambda>req. rpc_method (data req))
             (construction_calls httpUrl a walletName privkey present :: 'n request list))) \<le> 1"
    for present
    by (cases privkey) (simp_all add: construction_calls_def listwallets_request_def)
  with prefix_filter_length[OF newInstance_methods[where w = w and T = T and httpUrl = httpUrl and user = user and pass = pass
      and walletName = walletName and privkey = privkey],
      of "\<lambda>m. m = ''createwallet''"]
  have one: "length (filter (\<lambda>m. m = ''createwallet'') (methods (since w w1))) \<le> 1"
    unfolding a_def w1_def by (rule order_trans)
  have "length (filter (\<lambda>m. m = ''createwallet'') (methods (since w w2))) \<le> 1"
    if "wallet_listed (fst (T (node w1) (listwallets_request httpUrl a))) walletName"
  proof -
    have "filter (\<lambda>m. m = ''createwallet'') (methods (since w1 w2)) = []"
      using second[OF that] by (auto simp add: filter_empty_conv)
    then show ?thesis
      using one by (simp add: both)
  qed
  with first second show ?thesis
    unfolding Let_def a_def[symmetric] w1_def[symmetric] w2_def[symmetric] by blast
qed

theorem listed_wallet_is_not_created_witness:
  "wallet_listed
     (fst (example_node
        (node (snd (newInstance example_node ''http://localhost:18443'' ''user'' ''secret''
                 ''c'' None (example_world [''a'', ''b''] ''regtest''))))
        (listwallets_request ''http://localhost:18443''
           \<lparr>username = ''user'', password = ''secret''\<rparr>))) ''c'' \<and>
   methods (since (example_world [''a'', ''b''] ''regtest'')
     (snd (newInstance example_node ''http://localhost:18443'' ''user'' ''secret'' ''c'' None
        (example_world [''a'', ''b''] ''regtest'')))) = [''listwallets'', ''createwallet''] \<and>
   ''createwallet'' \<notin> set (methods
     (since
       (snd (newInstance example_node ''http://localhost:18443'' ''user'' ''secret'' ''c'' None
          (example_world [''a'', ''b''] ''regtest'')))
       (snd (newInstance example_node ''http://localhost:18443'' ''user'' ''secret'' ''c'' None
          (snd (newInstance example_node ''http://localhost:18443'' ''user'' ''secret'' ''c''
             None (example_world [''a'', ''b''] ''regtest''))))))) \<and>
   wallet_listed
     (fst (example_node (node (example_world [''a'', ''b'', ''c''] ''regtest''))
        (listwallets_request ''http://localhost:18443''
           \<lparr>username = ''user'', password = ''secret''\<rparr>))) ''c'' \<and>
   ''createwallet'' \<notin> set (methods
     (since (example_world [''a'', ''b'', ''c''] ''regtest'')
       (snd (newInstance example_node ''http://localhost:18443'' ''user'' ''secret'' ''c'' None
          (example_world [''a'', ''b'', ''c''] ''regtest'')))))"
proof -
  have l: "wallet_listed
     (fst (example_node (node (example_world [''a'', ''b'', ''c''] ''regtest''))
        (listwallets_request ''http://localhost:18443''
           \<lparr>username = ''user'', password = ''secret''\<rparr>))) ''c''"
    by (simp add: example_node_def example_world_def listwallets_request_def)
  have w1: "snd (newInstance example_node ''http://localhost:18443'' ''user'' ''secret'' ''c''
      None (example_world [''a'', ''b''] ''regtest'')) =
    \<lparr>node = ([''a'', ''b'', ''c''], ''regtest''),
     issued =
       [(listwallets_request ''http://localhost:18443''
           \<lparr>username = ''user'', password = ''secret''\<rparr>,
         Inr (JObj [(''result'', JArr [JStr ''a'', JStr ''b'']), (''error'', JNull)])),
        (\<lparr>url = ''http://localhost:18443'', http_method = ''post'',
          auth = \<lparr>username = ''user'', password = ''secret''\<rparr>,
          data = \<lparr>jsonrpc = ''1.0'', rpc_method = ''createwallet'',
                  params = Some [JStr ''c'']\<rparr>\<rparr>,
         Inr (JObj [(''result'', JObj [(''name'', JStr ''c'')]), (''error'', JNull)]))]\<rparr>"
    by (simp add: newInstance_example_defs)
  have h: "wallet_listed
     (fst (example_node
        (node (snd (newInstance example_node ''http://localhost:18443'' ''user'' ''secret''
                 ''c'' None (example_world [''a'', ''b''] ''regtest''))))
        (listwallets_request ''http://localhost:18443''
           \<lparr>username = ''user'', password = ''secret''\<rparr>))) ''c''"
    unfolding w1 by (simp add: example_node_def listwallets_request_def)
  have m: "methods (since (example_world [''a'', ''b''] ''regtest'')
     (snd (newInstance example_node ''http://localhost:18443'' ''user'' ''secret'' ''c'' None
        (example_world [''a'', ''b''] ''regtest'')))) = [''listwallets'', ''createwallet'']"
    unfolding w1 by (simp add: since_def methods_def example_world_def listwallets_request_def)
  show ?thesis
    using h m l
      listed_wallet_is_not_created
        [of "''user''" "''secret''" example_node "''http://localhost:18443''" "''c''" None
            "example_world [''a'', ''b''] ''regtest''"]
      listed_wallet_is_not_created
        [of "''user''" "''secret''" example_node "''http://localhost:18443''" "''c''" None
            "example_world [''a'', ''b'', ''c''] ''regtest''"]
    by (simp add: Let_def)
qed

text \<open>
  Claim C10. When the \<open>privkey\<close> argument is omitted or is the empty string, \<open>newInstance\<close>
  issues no \<open>importprivkey\<close> request: the import runs only for a string that is not empty.
\<close>

theorem no_import_without_privkey:
  fixes T :: "('s, 'n) transport"
  assumes "privkey = None \<or> privkey = Some ''''"
  shows "''importprivkey'' \<notin>
     set (methods (since w (snd (newInstance T httpUrl user pass walletName privkey w))))"
proof -
  have "''importprivkey'' \<notin> set (map (\<lambda>req. rpc_method (data req))
        (construction_calls httpUrl \<lparr>username = user, password = pass\<rparr> walletName privkey
           present :: 'n request list))" for present
    using assms by (cases privkey) (simp_all add: construction_calls_def listwallets_request_def)
  with set_mono_prefix[OF newInstance_methods[where w = w and T = T and httpUrl = httpUrl and user = user and pass = pass
      and walletName = walletName and privkey = privkey]]
  show ?thesis
    by auto
qed

theorem no_import_without_privkey_witness:
  "(Some '''' = (None :: string option) \<or> Some '''' = Some '''') \<and>
   ''importprivkey'' \<notin> set (methods (since (example_world [''a'', ''b''] ''regtest'')
     (snd (newInstance example_node ''http://localhost:18443'' ''user'' ''secret'' ''c''
        (Some '''') (example_world [''a'', ''b''] ''regtest'')))))"
proof -
  have h: "Some '''' = (None :: string option) \<or> Some '''' = Some ''''"
    by simp
  show ?thesis
    using h no_import_without_privkey [OF h, of "example_world [''a'', ''b''] ''regtest''"
        example_node "''http://localhost:18443''" "''user''" "''secret''" "''c''"]
    by simp
qed

end
